theory Spec2Isabelle
  imports Complex_Main "HOL-Library.Multiset" "HOL-Library.Product_Lexorder"
begin

section \<open>Request values\<close>

text \<open>
  The body of a request is what \<^verbatim>\<open>bodyParser.json()\<close> leaves in \<^verbatim>\<open>req.body\<close>: a JSON
  object or array (the empty object when the request has no JSON body). A field read by
  destructuring (\<^verbatim>\<open>const { title, date } = req.body\<close>) is either absent
  (\<^verbatim>\<open>undefined\<close>, here \<open>None\<close>) or a JSON value. A JSON number is carried by its numeric
  value; the handlers only test it against zero and turn it into a time value.
\<close>

datatype json =
    JNull
  | JBool bool
  | JNum rat
  | JStr string
  | JArr "json list"
  | JObj "(string \<times> json) list"

text \<open>
  Reading a property of the body, as the destructuring does: the value of the key in a
  JSON object (the last one, where \<^verbatim>\<open>JSON.parse\<close> met the key more than once), and
  \<^verbatim>\<open>undefined\<close> when the object has no such key or the body is an array. The handlers
  read \<^verbatim>\<open>title\<close>, \<^verbatim>\<open>date\<close> and \<^verbatim>\<open>completed\<close>; no other key of the body is looked at.
\<close>

type_synonym body = json

fun getProp :: "body \<Rightarrow> string \<Rightarrow> json option" where
  "getProp (JObj kvs) k = map_of (rev kvs) k"
| "getProp b k = None"

definition body_title :: "body \<Rightarrow> json option" where
  "body_title b = getProp b ''title''"

definition body_date :: "body \<Rightarrow> json option" where
  "body_date b = getProp b ''date''"

definition body_completed :: "body \<Rightarrow> json option" where
  "body_completed b = getProp b ''completed''"

text \<open>
  JavaScript truthiness, as used by \<^verbatim>\<open>!title\<close>, \<^verbatim>\<open>!date\<close>, \<^verbatim>\<open>if (date)\<close> and
  \<^verbatim>\<open>date ? ... : undefined\<close>: \<^verbatim>\<open>undefined\<close>, \<^verbatim>\<open>null\<close>, \<^verbatim>\<open>false\<close>, \<^verbatim>\<open>0\<close> and the
  empty string are falsy, everything else (arrays and objects included) is truthy.
\<close>

fun truthy :: "json option \<Rightarrow> bool" where
  "truthy None = False"
| "truthy (Some JNull) = False"
| "truthy (Some (JBool b)) = b"
| "truthy (Some (JNum n)) = (n \<noteq> 0)"
| "truthy (Some (JStr s)) = (s \<noteq> [])"
| "truthy (Some (JArr xs)) = True"
| "truthy (Some (JObj kvs)) = True"

section \<open>Dates\<close>

text \<open>
  A \<^verbatim>\<open>Date\<close> object holds a time value: a whole number of milliseconds since the epoch,
  or \<^verbatim>\<open>NaN\<close> (an invalid date).
\<close>

datatype jsdate = InvalidDate | Time int

text \<open>\<^verbatim>\<open>TimeClip\<close>: out of range is \<^verbatim>\<open>NaN\<close>, otherwise the number truncated towards zero.\<close>

definition timeClip :: "rat \<Rightarrow> jsdate" where
  "timeClip n =
     (if \<bar>n\<bar> \<le> 8640000000000000
      then Time (if 0 \<le> n then \<lfloor>n\<rfloor> else \<lceil>n\<rceil>)
      else InvalidDate)"

text \<open>
  What the handlers take from the platform they run on (the JavaScript engine and the
  Mongoose library), and what this development leaves open:
  \<^item> \<open>castObjectId\<close>: the cast of the \<^verbatim>\<open>:id\<close> path parameter to an \<^verbatim>\<open>ObjectId\<close>;
    \<open>None\<close> is a malformed id (a \<^verbatim>\<open>CastError\<close>);
  \<^item> \<open>parseDate\<close>: \<^verbatim>\<open>new Date(s)\<close> for a string \<open>s\<close> (\<^verbatim>\<open>Date.parse\<close>);
  \<^item> \<open>objectToDate\<close>: \<^verbatim>\<open>new Date(v)\<close> for an array or object \<open>v\<close>, which converts
    \<open>v\<close> to a primitive first; \<open>None\<close> when that conversion throws a \<^verbatim>\<open>TypeError\<close>;
  \<^item> \<open>valueToString\<close>: the schema type \<^verbatim>\<open>String\<close> cast of a value that is neither
    \<^verbatim>\<open>null\<close> nor a string; \<open>None\<close> is a \<^verbatim>\<open>CastError\<close>.
  Every theorem below that mentions a platform \<open>P\<close> holds for all of them.
\<close>

type_synonym objid = nat

record platform =
  castObjectId :: "string \<Rightarrow> objid option"
  parseDate :: "string \<Rightarrow> jsdate"
  objectToDate :: "json \<Rightarrow> jsdate option"
  valueToString :: "json \<Rightarrow> string option"

text \<open>
  \<^verbatim>\<open>new Date(value)\<close> with one argument; \<open>None\<close> when the constructor throws.
  A string is parsed, any other primitive is converted to a number and clipped.
\<close>

fun newDate :: "platform \<Rightarrow> json option \<Rightarrow> jsdate option" where
  "newDate P None = Some InvalidDate"
| "newDate P (Some JNull) = Some (Time 0)"
| "newDate P (Some (JBool b)) = Some (Time (if b then 1 else 0))"
| "newDate P (Some (JNum n)) = Some (timeClip n)"
| "newDate P (Some (JStr s)) = Some (parseDate P s)"
| "newDate P (Some (JArr xs)) = objectToDate P (JArr xs)"
| "newDate P (Some (JObj kvs)) = objectToDate P (JObj kvs)"

text \<open>
  \<^verbatim>\<open>taskDate < new Date()\<close>, the second argument being the clock reading: both dates are
  converted to their time values, and a comparison with \<^verbatim>\<open>NaN\<close> is false.
\<close>

fun dateBefore :: "jsdate \<Rightarrow> int \<Rightarrow> bool" where
  "dateBefore InvalidDate now = False"
| "dateBefore (Time t) now = (t < now)"

section \<open>The task collection\<close>

text \<open>
  \<^verbatim>\<open>taskSchema\<close>: a stored document. \<open>completed\<close> is \<open>None\<close> when the document holds
  \<^verbatim>\<open>null\<close> there. The collection is the list of its documents in insertion order.

  The operations on it are those of the Mongoose model \<^verbatim>\<open>Task\<close>, as the library documents
  them for the arguments the handlers pass: a value is cast by the schema type of its
  path; \<^verbatim>\<open>save\<close> validates the document; an update sets the keys it holds, a key whose
  value is \<^verbatim>\<open>undefined\<close> being removed from it (Mongoose 6 and later); setters such as
  \<^verbatim>\<open>trim\<close> run on the values of an update, and so do the validators under
  \<^verbatim>\<open>runValidators: true\<close>.
\<close>

record task =
  task_id :: objid
  title :: string
  date :: int
  createdAt :: int
  completed :: "bool option"

type_synonym collection = "task list"

text \<open>The errors a storage call can throw into the handler's \<^verbatim>\<open>catch\<close>.\<close>

datatype exn = CastError | ValidationError | DuplicateKey | TypeError

subsection \<open>Schema types\<close>

text \<open>
  A string of the model is a list of characters with codes 0 to 255, each standing for
  the code unit of that number (\<open>CHR 0xA0\<close> is U+00A0); a string with a code unit beyond
  255 is outside the model.

  \<^verbatim>\<open>trim: true\<close> is \<^verbatim>\<open>String.prototype.trim\<close>: white space and line terminators are
  removed at both ends of the string. In the range of the model these are TAB, LF, VT,
  FF, CR, the space and the no-break space U+00A0.
\<close>

definition isSpace :: "char \<Rightarrow> bool" where
  "isSpace c =
     (c \<in> set [CHR 0x09, CHR 0x0A, CHR 0x0B, CHR 0x0C, CHR 0x0D, CHR 0x20, CHR 0xA0])"

definition trim :: "string \<Rightarrow> string" where
  "trim s = rev (dropWhile isSpace (rev (dropWhile isSpace s)))"

text \<open>
  The path \<^verbatim>\<open>title\<close> (\<^verbatim>\<open>String\<close>, \<^verbatim>\<open>required\<close>, \<^verbatim>\<open>trim\<close>). \<open>castString\<close> is the cast
  with the \<^verbatim>\<open>trim\<close> setter: \<^verbatim>\<open>null\<close> stays \<^verbatim>\<open>null\<close> (\<open>None\<close>), any other value is cast to
  a string and trimmed. \<open>requiredString\<close> is the \<^verbatim>\<open>required\<close> validator, which refuses
  \<^verbatim>\<open>null\<close> and the empty string. \<open>castTitle\<close> is the cast followed by the validator.
\<close>

fun castString :: "platform \<Rightarrow> json \<Rightarrow> exn + string option" where
  "castString P JNull = Inr None"
| "castString P (JStr s) = Inr (Some (trim s))"
| "castString P v =
     (case valueToString P v of
        None \<Rightarrow> Inl CastError
      | Some s \<Rightarrow> Inr (Some (trim s)))"

fun requiredString :: "string option \<Rightarrow> exn + string" where
  "requiredString None = Inl ValidationError"
| "requiredString (Some s) = (if s = [] then Inl ValidationError else Inr s)"

definition castTitle :: "platform \<Rightarrow> json \<Rightarrow> exn + string" where
  "castTitle P v =
     (case castString P v of
        Inl e \<Rightarrow> Inl e
      | Inr x \<Rightarrow> requiredString x)"

text \<open>The path \<^verbatim>\<open>date\<close> (\<^verbatim>\<open>Date\<close>, \<^verbatim>\<open>required\<close>): an invalid \<^verbatim>\<open>Date\<close> object does not cast.\<close>

fun castDate :: "jsdate \<Rightarrow> exn + int" where
  "castDate InvalidDate = Inl CastError"
| "castDate (Time t) = Inr t"

text \<open>
  The path \<^verbatim>\<open>completed\<close> (\<^verbatim>\<open>Boolean\<close>): \<^verbatim>\<open>true\<close>, \<^verbatim>\<open>'true'\<close>, \<^verbatim>\<open>1\<close>, \<^verbatim>\<open>'1'\<close> and
  \<^verbatim>\<open>'yes'\<close> cast to true; \<^verbatim>\<open>false\<close>, \<^verbatim>\<open>'false'\<close>, \<^verbatim>\<open>0\<close>, \<^verbatim>\<open>'0'\<close> and \<^verbatim>\<open>'no'\<close> to
  false; \<^verbatim>\<open>null\<close> stays \<^verbatim>\<open>null\<close>; nothing else casts.
\<close>

fun castBoolean :: "json \<Rightarrow> exn + bool option" where
  "castBoolean JNull = Inr None"
| "castBoolean (JBool b) = Inr (Some b)"
| "castBoolean (JNum n) =
     (if n = 1 then Inr (Some True) else if n = 0 then Inr (Some False) else Inl CastError)"
| "castBoolean (JStr s) =
     (if s \<in> set [''true'', ''1'', ''yes''] then Inr (Some True)
      else if s \<in> set [''false'', ''0'', ''no''] then Inr (Some False)
      else Inl CastError)"
| "castBoolean (JArr xs) = Inl CastError"
| "castBoolean (JObj kvs) = Inl CastError"

subsection \<open>Model operations\<close>

text \<open>
  \<^verbatim>\<open>Task.find().sort({ date: 1, createdAt: -1 })\<close>: every document, by ascending
  \<open>date\<close> and, for equal dates, by descending \<open>createdAt\<close>.
\<close>

definition sortKey :: "task \<Rightarrow> int \<times> int" where
  "sortKey t = (date t, - createdAt t)"

definition findSorted :: "collection \<Rightarrow> task list" where
  "findSorted db = sort_key sortKey db"

text \<open>\<^verbatim>\<open>Task.findById(id)\<close>: the id is cast, then the document with that \<^verbatim>\<open>_id\<close> or \<^verbatim>\<open>null\<close>.\<close>

definition findById :: "platform \<Rightarrow> string \<Rightarrow> collection \<Rightarrow> exn + task option" where
  "findById P rid db =
     (case castObjectId P rid of
        None \<Rightarrow> Inl CastError
      | Some oid \<Rightarrow> Inr (find (\<lambda>t. task_id t = oid) db))"

text \<open>
  \<^verbatim>\<open>new Task({ title, date: taskDate }).save()\<close>. The document gets the generated
  \<^verbatim>\<open>_id\<close> \<open>oid\<close>, the defaults \<^verbatim>\<open>createdAt: Date.now\<close> (the clock reading \<open>created\<close>) and
  \<^verbatim>\<open>completed: false\<close>; \<^verbatim>\<open>save\<close> validates it (a path that did not cast fails
  validation) and inserts it, which the unique index on \<^verbatim>\<open>_id\<close> refuses for an id that is
  already stored.
\<close>

definition save ::
  "platform \<Rightarrow> int \<Rightarrow> objid \<Rightarrow> json option \<Rightarrow> jsdate \<Rightarrow> collection \<Rightarrow> exn + task \<times> collection" where
  "save P created oid ttl taskDate db =
     (case ttl of
        None \<Rightarrow> Inl ValidationError
      | Some v \<Rightarrow>
          (case castTitle P v of
             Inl e \<Rightarrow> Inl ValidationError
           | Inr s \<Rightarrow>
               (case castDate taskDate of
                  Inl e \<Rightarrow> Inl ValidationError
                | Inr d \<Rightarrow>
                    if oid \<in> set (map task_id db) then Inl DuplicateKey
                    else
                      let doc = \<lparr>task_id = oid, title = s, date = d, createdAt = created,
                                 completed = Some False\<rparr>
                      in Inr (doc, db @ [doc]))))"

text \<open>
  The update document \<^verbatim>\<open>{ title, date: ..., completed }\<close> the handler builds: each key
  holds a value or \<^verbatim>\<open>undefined\<close> (\<open>None\<close>); \<open>upd_date\<close> is a \<^verbatim>\<open>Date\<close> object when present.
\<close>

record update =
  upd_title :: "json option"
  upd_date :: "jsdate option"
  upd_completed :: "json option"

text \<open>
  The update after casting: the \<^verbatim>\<open>$set\<close> that reaches the collection. A key whose value
  is \<^verbatim>\<open>undefined\<close> is removed from the update, so it is absent here too (\<open>castKey\<close>);
  the value of any other key is cast by its schema type. Every key is cast before any
  validator runs: a value that does not cast is a \<^verbatim>\<open>CastError\<close> whatever the other keys
  hold. With \<^verbatim>\<open>runValidators: true\<close> the validators of the paths that are set run then
  (here the \<^verbatim>\<open>required\<close> of the title).
\<close>

record setdoc =
  set_title :: "string option"
  set_date :: "int option"
  set_completed :: "bool option option"

fun castKey :: "('a \<Rightarrow> exn + 'b) \<Rightarrow> 'a option \<Rightarrow> exn + 'b option" where
  "castKey f None = Inr None"
| "castKey f (Some v) = (case f v of Inl e \<Rightarrow> Inl e | Inr x \<Rightarrow> Inr (Some x))"

definition castUpdate :: "platform \<Rightarrow> update \<Rightarrow> exn + setdoc" where
  "castUpdate P u =
     (case castKey (castString P) (upd_title u) of
        Inl e \<Rightarrow> Inl e
      | Inr ct \<Rightarrow>
          (case castKey castDate (upd_date u) of
             Inl e \<Rightarrow> Inl e
           | Inr sd \<Rightarrow>
               (case castKey castBoolean (upd_completed u) of
                  Inl e \<Rightarrow> Inl e
                | Inr sc \<Rightarrow>
                    (case castKey requiredString ct of
                       Inl e \<Rightarrow> Inl e
                     | Inr st \<Rightarrow>
                         Inr \<lparr>set_title = st, set_date = sd, set_completed = sc\<rparr>))))"

definition applySet :: "setdoc \<Rightarrow> task \<Rightarrow> task" where
  "applySet s t =
     t\<lparr>title := (case set_title s of None \<Rightarrow> title t | Some x \<Rightarrow> x),
       date := (case set_date s of None \<Rightarrow> date t | Some d \<Rightarrow> d),
       completed := (case set_completed s of None \<Rightarrow> completed t | Some c \<Rightarrow> c)\<rparr>"

text \<open>The first document with the given \<^verbatim>\<open>_id\<close> is replaced; \<^verbatim>\<open>new: true\<close> returns it as updated.\<close>

fun findOneAndUpdate :: "objid \<Rightarrow> (task \<Rightarrow> task) \<Rightarrow> collection \<Rightarrow> task option \<times> collection" where
  "findOneAndUpdate oid f [] = (None, [])"
| "findOneAndUpdate oid f (t # ts) =
     (if task_id t = oid then (Some (f t), f t # ts)
      else (case findOneAndUpdate oid f ts of (r, ts') \<Rightarrow> (r, t # ts')))"

text \<open>
  \<^verbatim>\<open>Task.findByIdAndUpdate(id, update, { new: true, runValidators: true })\<close>: the id and
  the update are cast and validated before the collection is touched.
\<close>

definition findByIdAndUpdate ::
  "platform \<Rightarrow> string \<Rightarrow> update \<Rightarrow> collection \<Rightarrow> exn + task option \<times> collection" where
  "findByIdAndUpdate P rid u db =
     (case castObjectId P rid of
        None \<Rightarrow> Inl CastError
      | Some oid \<Rightarrow>
          (case castUpdate P u of
             Inl e \<Rightarrow> Inl e
           | Inr s \<Rightarrow> Inr (findOneAndUpdate oid (applySet s) db)))"

text \<open>\<^verbatim>\<open>Task.findByIdAndDelete(id)\<close>: the first document with that \<^verbatim>\<open>_id\<close> is removed and returned.\<close>

fun findOneAndDelete :: "objid \<Rightarrow> collection \<Rightarrow> task option \<times> collection" where
  "findOneAndDelete oid [] = (None, [])"
| "findOneAndDelete oid (t # ts) =
     (if task_id t = oid then (Some t, ts)
      else (case findOneAndDelete oid ts of (r, ts') \<Rightarrow> (r, t # ts')))"

definition findByIdAndDelete :: "platform \<Rightarrow> string \<Rightarrow> collection \<Rightarrow> exn + task option \<times> collection" where
  "findByIdAndDelete P rid db =
     (case castObjectId P rid of
        None \<Rightarrow> Inl CastError
      | Some oid \<Rightarrow> Inr (findOneAndDelete oid db))"

section \<open>Responses\<close>

text \<open>
  The JSON envelopes of \<^verbatim>\<open>index.js\<close>. The literal texts of the source are constructors
  (they are quoted here without their accents):
  \<^item> \<open>message\<close>: \<^verbatim>\<open>'Tarea creada exitosamente'\<close>, \<^verbatim>\<open>'Tarea actualizada exitosamente'\<close>,
    \<^verbatim>\<open>'Tarea eliminada correctamente'\<close>;
  \<^item> \<open>errorText\<close>: the \<^verbatim>\<open>error\<close> field: \<^verbatim>\<open>'Datos incompletos'\<close>, \<^verbatim>\<open>'Fecha invalida'\<close>,
    \<^verbatim>\<open>'Tarea no encontrada'\<close> and the five \<^verbatim>\<open>'Error al ...'\<close> texts of the \<^verbatim>\<open>catch\<close> blocks;
  \<^item> \<open>detail\<close>: the \<^verbatim>\<open>message\<close> field of a failure: \<^verbatim>\<open>'El titulo y la fecha son obligatorios'\<close>,
    \<^verbatim>\<open>'La fecha debe ser futura'\<close>, the not-found text with the id, or \<^verbatim>\<open>error.message\<close>.
\<close>

datatype message = TareaCreada | TareaActualizada | TareaEliminada

datatype errorText =
    DatosIncompletos
  | FechaInvalida
  | TareaNoEncontrada
  | ErrorObtenerTareas
  | ErrorObtenerTarea
  | ErrorCrearTarea
  | ErrorActualizarTarea
  | ErrorEliminarTarea

datatype detail =
    Obligatorios
  | DebeSerFutura
  | NoSeEncontro string
  | ErrorMessage exn

datatype payload =
    TaskList nat "task list"
  | TaskFound task
  | TaskSaved message task
  | TaskDeleted message objid string
  | Failure errorText detail

record response =
  status :: nat
  payload :: payload

text \<open>The \<^verbatim>\<open>success\<close> field of the envelope.\<close>

fun success :: "payload \<Rightarrow> bool" where
  "success (Failure e m) = False"
| "success p = True"

definition fail :: "nat \<Rightarrow> errorText \<Rightarrow> detail \<Rightarrow> response" where
  "fail code e m = \<lparr>status = code, payload = Failure e m\<rparr>"

section \<open>Route handlers\<close>

text \<open>
  Each handler maps the request and the collection to the response and the collection
  afterwards. \<^verbatim>\<open>res.json\<close> without \<^verbatim>\<open>res.status\<close> answers 200. Clock readings and the
  generated \<^verbatim>\<open>_id\<close> are arguments. Failures of the connection to the database are not
  modelled.
\<close>

text \<open>\<^verbatim>\<open>GET /tasks\<close>\<close>

definition get_tasks :: "collection \<Rightarrow> response \<times> collection" where
  "get_tasks db =
     (let tasks = findSorted db
      in (\<lparr>status = 200, payload = TaskList (length tasks) tasks\<rparr>, db))"

text \<open>\<^verbatim>\<open>GET /tasks/:id\<close>\<close>

definition get_task :: "platform \<Rightarrow> string \<Rightarrow> collection \<Rightarrow> response \<times> collection" where
  "get_task P rid db =
     (case findById P rid db of
        Inl e \<Rightarrow> (fail 500 ErrorObtenerTarea (ErrorMessage e), db)
      | Inr None \<Rightarrow> (fail 404 TareaNoEncontrada (NoSeEncontro rid), db)
      | Inr (Some t) \<Rightarrow> (\<lparr>status = 200, payload = TaskFound t\<rparr>, db))"

text \<open>
  \<^verbatim>\<open>POST /tasks\<close>; \<open>now\<close> is the reading of \<^verbatim>\<open>new Date()\<close> in the date check, \<open>created\<close>
  and \<open>oid\<close> are the \<^verbatim>\<open>Date.now()\<close> and the \<^verbatim>\<open>_id\<close> of the new document.
\<close>

definition post_task ::
  "platform \<Rightarrow> int \<Rightarrow> int \<Rightarrow> objid \<Rightarrow> body \<Rightarrow> collection \<Rightarrow> response \<times> collection" where
  "post_task P now created oid b db =
     (if \<not> truthy (body_title b) \<or> \<not> truthy (body_date b)
      then (fail 400 DatosIncompletos Obligatorios, db)
      else
        (case newDate P (body_date b) of
           None \<Rightarrow> (fail 500 ErrorCrearTarea (ErrorMessage TypeError), db)
         | Some taskDate \<Rightarrow>
             if dateBefore taskDate now
             then (fail 400 FechaInvalida DebeSerFutura, db)
             else
               (case save P created oid (body_title b) taskDate db of
                  Inl e \<Rightarrow> (fail 500 ErrorCrearTarea (ErrorMessage e), db)
                | Inr (savedTask, db') \<Rightarrow>
                    (\<lparr>status = 201, payload = TaskSaved TareaCreada savedTask\<rparr>, db'))))"

text \<open>
  \<^verbatim>\<open>PUT /tasks/:id\<close>. \<open>dateCheck\<close> is the block \<^verbatim>\<open>if (date) { ... }\<close>: \<open>None\<close> when it falls
  through, otherwise the response it returns (400) or the one of the \<^verbatim>\<open>catch\<close> (500) when
  \<^verbatim>\<open>new Date(date)\<close> throws. \<open>updateOf\<close> is the object passed to \<^verbatim>\<open>findByIdAndUpdate\<close>,
  whose \<^verbatim>\<open>date\<close> is \<^verbatim>\<open>date ? new Date(date) : undefined\<close>.
\<close>

definition dateCheck :: "platform \<Rightarrow> int \<Rightarrow> json option \<Rightarrow> response option" where
  "dateCheck P now d =
     (if truthy d then
        (case newDate P d of
           None \<Rightarrow> Some (fail 500 ErrorActualizarTarea (ErrorMessage TypeError))
         | Some taskDate \<Rightarrow>
             if dateBefore taskDate now then Some (fail 400 FechaInvalida DebeSerFutura)
             else None)
      else None)"

definition updateOf :: "platform \<Rightarrow> body \<Rightarrow> exn + update" where
  "updateOf P b =
     (if truthy (body_date b) then
        (case newDate P (body_date b) of
           None \<Rightarrow> Inl TypeError
         | Some taskDate \<Rightarrow>
             Inr \<lparr>upd_title = body_title b, upd_date = Some taskDate,
                  upd_completed = body_completed b\<rparr>)
      else Inr \<lparr>upd_title = body_title b, upd_date = None, upd_completed = body_completed b\<rparr>)"

definition put_task ::
  "platform \<Rightarrow> int \<Rightarrow> string \<Rightarrow> body \<Rightarrow> collection \<Rightarrow> response \<times> collection" where
  "put_task P now rid b db =
     (case dateCheck P now (body_date b) of
        Some r \<Rightarrow> (r, db)
      | None \<Rightarrow>
          (case updateOf P b of
             Inl e \<Rightarrow> (fail 500 ErrorActualizarTarea (ErrorMessage e), db)
           | Inr u \<Rightarrow>
               (case findByIdAndUpdate P rid u db of
                  Inl e \<Rightarrow> (fail 500 ErrorActualizarTarea (ErrorMessage e), db)
                | Inr (None, db') \<Rightarrow> (fail 404 TareaNoEncontrada (NoSeEncontro rid), db')
                | Inr (Some updatedTask, db') \<Rightarrow>
                    (\<lparr>status = 200, payload = TaskSaved TareaActualizada updatedTask\<rparr>,
                     db'))))"

text \<open>\<^verbatim>\<open>DELETE /tasks/:id\<close>\<close>

definition delete_task :: "platform \<Rightarrow> string \<Rightarrow> collection \<Rightarrow> response \<times> collection" where
  "delete_task P rid db =
     (case findByIdAndDelete P rid db of
        Inl e \<Rightarrow> (fail 500 ErrorEliminarTarea (ErrorMessage e), db)
      | Inr (None, db') \<Rightarrow> (fail 404 TareaNoEncontrada (NoSeEncontro rid), db')
      | Inr (Some deletedTask, db') \<Rightarrow>
          (\<lparr>status = 200,
            payload = TaskDeleted TareaEliminada (task_id deletedTask) (title deletedTask)\<rparr>, db'))"

section \<open>A platform to run examples on\<close>

text \<open>
  The examples below need one concrete platform. This one reads an id of 24 hexadecimal
  digits as the number they write, and parses the two date-time forms
  \<^verbatim>\<open>YYYY-MM-DD\<close> and \<^verbatim>\<open>YYYY-MM-DDTHH:mm:ss.sssZ\<close> (both UTC) of a calendar date. It is a
  stand-in everywhere else: every other id is malformed, every other string, array and
  object is an invalid date, and no value other than a string casts to a title. The
  examples use hexadecimal ids, numbers and strings of the two forms as dates, and
  strings as titles.
\<close>

definition hexDigit :: "char \<Rightarrow> nat option" where
  "hexDigit c =
     (let n = of_char c :: nat in
      if 48 \<le> n \<and> n \<le> 57 then Some (n - 48)
      else if 97 \<le> n \<and> n \<le> 102 then Some (n - 87)
      else if 65 \<le> n \<and> n \<le> 70 then Some (n - 55)
      else None)"

fun hexValue :: "nat \<Rightarrow> string \<Rightarrow> nat option" where
  "hexValue acc [] = Some acc"
| "hexValue acc (c # cs) =
     (case hexDigit c of None \<Rightarrow> None | Some d \<Rightarrow> hexValue (16 * acc + d) cs)"

definition objectIdOfHex :: "string \<Rightarrow> objid option" where
  "objectIdOfHex s = (if length s = 24 then hexValue 0 s else None)"

fun decimalValue :: "nat \<Rightarrow> string \<Rightarrow> nat option" where
  "decimalValue acc [] = Some acc"
| "decimalValue acc (c # cs) =
     (let n = of_char c :: nat in
      if 48 \<le> n \<and> n \<le> 57 then decimalValue (10 * acc + (n - 48)) cs else None)"

text \<open>The day number of a date of the proleptic Gregorian calendar, day 0 being 1970-01-01.\<close>

definition daysFromCivil :: "int \<Rightarrow> int \<Rightarrow> int \<Rightarrow> int" where
  "daysFromCivil y m d =
     (let y' = (if m \<le> 2 then y - 1 else y);
          era = y' div 400;
          yoe = y' - era * 400;
          mp = (if 2 < m then m - 3 else m + 9);
          doy = (153 * mp + 2) div 5 + d - 1;
          doe = yoe * 365 + yoe div 4 - yoe div 100 + doy
      in era * 146097 + doe - 719468)"

definition daysInMonth :: "nat \<Rightarrow> nat \<Rightarrow> nat" where
  "daysInMonth y m =
     (if m = 2 then (if y mod 4 = 0 \<and> (y mod 100 \<noteq> 0 \<or> y mod 400 = 0) then 29 else 28)
      else if m \<in> set [4, 6, 9, 11] then 30 else 31)"

definition isoDay :: "string \<Rightarrow> int option" where
  "isoDay s =
     (if length s = 10 \<and> s ! 4 = CHR ''-'' \<and> s ! 7 = CHR ''-'' then
        (case (decimalValue 0 (take 4 s), decimalValue 0 (take 2 (drop 5 s)),
               decimalValue 0 (drop 8 s)) of
           (Some y, Some m, Some d) \<Rightarrow>
             if 1 \<le> m \<and> m \<le> 12 \<and> 1 \<le> d \<and> d \<le> daysInMonth y m
             then Some (daysFromCivil (int y) (int m) (int d)) else None
         | _ \<Rightarrow> None)
      else None)"

definition isoTime :: "string \<Rightarrow> int option" where
  "isoTime s =
     (if length s = 14 \<and> s ! 0 = CHR ''T'' \<and> s ! 3 = CHR '':'' \<and> s ! 6 = CHR '':''
         \<and> s ! 9 = CHR ''.'' \<and> s ! 13 = CHR ''Z'' then
        (case (decimalValue 0 (take 2 (drop 1 s)), decimalValue 0 (take 2 (drop 4 s)),
               decimalValue 0 (take 2 (drop 7 s)), decimalValue 0 (take 3 (drop 10 s))) of
           (Some h, Some mi, Some sec, Some ms) \<Rightarrow>
             if h \<le> 23 \<and> mi \<le> 59 \<and> sec \<le> 59
             then Some (int (((h * 60 + mi) * 60 + sec) * 1000 + ms)) else None
         | _ \<Rightarrow> None)
      else None)"

definition isoParse :: "string \<Rightarrow> jsdate" where
  "isoParse s =
     (case isoDay (take 10 s) of
        None \<Rightarrow> InvalidDate
      | Some days \<Rightarrow>
          if length s = 10 then Time (days * 86400000)
          else (case isoTime (drop 10 s) of
                  None \<Rightarrow> InvalidDate
                | Some ms \<Rightarrow> Time (days * 86400000 + ms)))"

definition examplePlatform :: platform where
  "examplePlatform =
     \<lparr>castObjectId = objectIdOfHex,
      parseDate = isoParse,
      objectToDate = (\<lambda>v. Some InvalidDate),
      valueToString = (\<lambda>v. None)\<rparr>"

definition exampleTask :: task where
  "exampleTask =
     \<lparr>task_id = 1, title = ''Comprar pan'', date = 2208988800000, createdAt = 1893456000000,
      completed = Some True\<rparr>"

definition exampleId :: string where
  "exampleId = ''000000000000000000000001''"

definition otherId :: string where
  "otherId = ''000000000000000000000002''"

text \<open>The clock of the examples stands at 2030-01-01T00:00:00.000Z.\<close>

definition exampleNow :: int where
  "exampleNow = 1893456000000"

definition exampleBody :: body where
  "exampleBody =
     (JObj [(''title'', JStr '' Comprar leche ''), (''date'', JStr ''2040-06-15''), (''completed'', JBool False)])"

text \<open>A body that also holds the keys \<^verbatim>\<open>_id\<close> and \<^verbatim>\<open>createdAt\<close>.\<close>

definition meddlingBody :: body where
  "meddlingBody =
     JObj [(''_id'', JStr ''000000000000000000000002''), (''createdAt'', JStr ''2000-01-01''),
           (''title'', JStr ''Comprar leche''), (''completed'', JBool False)]"

section \<open>Vocabulary of the properties\<close>

text \<open>The stored task with a given \<^verbatim>\<open>_id\<close>, as \<open>findById\<close> looks it up.\<close>

abbreviation stored :: "objid \<Rightarrow> collection \<Rightarrow> task option" where
  "stored oid db \<equiv> find (\<lambda>t. task_id t = oid) db"

text \<open>
  \<open>listOrder a b\<close>: \<open>a\<close> may stand before \<open>b\<close> in the answer of \<^verbatim>\<open>GET /tasks\<close>: its
  date is earlier, or the dates are equal and \<open>a\<close> was not created before \<open>b\<close>.
\<close>

definition listOrder :: "task \<Rightarrow> task \<Rightarrow> bool" where
  "listOrder a b = (date a < date b \<or> (date a = date b \<and> createdAt b \<le> createdAt a))"

text \<open>
  When \<^verbatim>\<open>PUT /tasks/:id\<close> lets a body through to the collection:
  \<^item> \<open>dateAccepted\<close>: the date is falsy (and then not looked at), or it makes a valid
    \<^verbatim>\<open>Date\<close> that is not before the clock reading;
  \<^item> \<open>fieldsCast\<close>: the title and the completed flag, where the body has them, pass the
    cast and the validators of their schema types.
\<close>

definition dateAccepted :: "platform \<Rightarrow> int \<Rightarrow> json option \<Rightarrow> bool" where
  "dateAccepted P now d =
     (\<not> truthy d \<or> (case newDate P d of Some (Time t) \<Rightarrow> now \<le> t | _ \<Rightarrow> False))"

definition fieldsCast :: "platform \<Rightarrow> body \<Rightarrow> bool" where
  "fieldsCast P b =
     ((case body_title b of None \<Rightarrow> True | Some v \<Rightarrow> \<not> isl (castTitle P v))
      \<and> (case body_completed b of None \<Rightarrow> True | Some v \<Rightarrow> \<not> isl (castBoolean v)))"

definition updateAccepted :: "platform \<Rightarrow> int \<Rightarrow> body \<Rightarrow> bool" where
  "updateAccepted P now b = (dateAccepted P now (body_date b) \<and> fieldsCast P b)"

section \<open>Properties of the model operations\<close>

lemma sortKey_le: "sortKey a \<le> sortKey b \<longleftrightarrow> listOrder a b"
  by (auto simp: sortKey_def listOrder_def)

lemma findSorted_ordered: "sorted_wrt listOrder (findSorted db)"
proof -
  have "sorted (map sortKey (sort_key sortKey db))"
    by (rule sorted_sort_key)
  then have "sorted_wrt (\<lambda>a b. sortKey a \<le> sortKey b) (sort_key sortKey db)"
    by (simp add: sorted_wrt_map)
  then show ?thesis
    by (simp add: findSorted_def sortKey_le)
qed

lemma applySet_task_id [simp]: "task_id (applySet s t) = task_id t"
  by (simp add: applySet_def)

lemma applySet_createdAt [simp]: "createdAt (applySet s t) = createdAt t"
  by (simp add: applySet_def)

lemma find_id_SomeD: "find (\<lambda>t. task_id t = oid) db = Some t \<Longrightarrow> task_id t = oid"
  by (induction db) (auto split: if_splits)

lemma findOneAndUpdate_absent:
  "find (\<lambda>t. task_id t = oid) db = None \<Longrightarrow> findOneAndUpdate oid f db = (None, db)"
  by (induction db) (auto split: if_splits)

lemma findOneAndUpdate_present:
  assumes "find (\<lambda>t. task_id t = oid) db = Some t" and "task_id (f t) = task_id t"
  shows "\<exists>db'. findOneAndUpdate oid f db = (Some (f t), db')
           \<and> find (\<lambda>t. task_id t = oid) db' = Some (f t)"
  using assms by (induction db) (auto split: if_splits)

lemma findOneAndUpdate_task_id:
  assumes "\<And>t. task_id (f t) = task_id t"
  shows "map task_id (snd (findOneAndUpdate oid f db)) = map task_id db"
  using assms by (induction db) (auto split: prod.splits)

lemma findOneAndUpdate_createdAt:
  assumes "\<And>t. createdAt (f t) = createdAt t"
  shows "map createdAt (snd (findOneAndUpdate oid f db)) = map createdAt db"
  using assms by (induction db) (auto split: prod.splits)

lemma findOneAndDelete_absent:
  "find (\<lambda>t. task_id t = oid) db = None \<Longrightarrow> findOneAndDelete oid db = (None, db)"
  by (induction db) (auto split: if_splits)

lemma findOneAndDelete_present:
  "find (\<lambda>t. task_id t = oid) db = Some t \<Longrightarrow> findOneAndDelete oid db = (Some t, remove1 t db)"
  by (induction db) (auto split: if_splits dest: find_id_SomeD)

lemma find_remove1_distinct:
  assumes "distinct (map task_id db)" and "find (\<lambda>t. task_id t = oid) db = Some t"
  shows "find (\<lambda>t. task_id t = oid) (remove1 t db) = None"
  using assms
proof (induction db)
  case Nil
  then show ?case by simp
next
  case (Cons a db)
  show ?case
  proof (cases "task_id a = oid")
    case True
    with Cons.prems have "a = t" by simp
    moreover from Cons.prems(1) True have "\<forall>x\<in>set db. task_id x \<noteq> oid"
      by (auto simp: image_iff)
    ultimately show ?thesis by (simp add: find_None_iff)
  next
    case False
    with Cons show ?thesis by (auto split: if_splits dest: find_id_SomeD)
  qed
qed

lemma dateCheck_None_iff:
  "dateCheck P now d = None \<longleftrightarrow>
     (\<not> truthy d \<or> newDate P d = Some InvalidDate \<or> (\<exists>t. newDate P d = Some (Time t) \<and> now \<le> t))"
proof (cases "newDate P d")
  case None
  then show ?thesis by (simp add: dateCheck_def)
next
  case (Some taskDate)
  then show ?thesis by (cases taskDate) (auto simp: dateCheck_def)
qed

lemma dateCheck_Some_status:
  "dateCheck P now d = Some r \<Longrightarrow> status r = 400 \<or> status r = 500"
  by (auto simp: dateCheck_def fail_def split: option.splits if_splits)

lemma castKey_Inr_iff:
  "castKey f v = Inr r \<longleftrightarrow>
     (case v of None \<Rightarrow> r = None | Some a \<Rightarrow> \<exists>x. f a = Inr x \<and> r = Some x)"
  by (cases v) (auto split: sum.splits)

lemma castDate_Inr_iff: "castDate d = Inr x \<longleftrightarrow> d = Time x"
  by (cases d) auto

lemma castKey_castTitle:
  "castKey (castTitle P) v =
     (case castKey (castString P) v of
        Inl e \<Rightarrow> Inl e
      | Inr ct \<Rightarrow> castKey requiredString ct)"
proof (cases v)
  case None
  then show ?thesis by simp
next
  case (Some a)
  then show ?thesis
    by (cases "castString P a") (simp_all add: castTitle_def)
qed

lemma castUpdate_Inr_iff:
  "castUpdate P u = Inr s \<longleftrightarrow>
     castKey (castTitle P) (upd_title u) = Inr (set_title s)
     \<and> castKey castDate (upd_date u) = Inr (set_date s)
     \<and> castKey castBoolean (upd_completed u) = Inr (set_completed s)"
  by (cases s) (auto simp: castUpdate_def castKey_castTitle split: sum.splits)

lemma castKey_ok:
  "(case v of None \<Rightarrow> True | Some a \<Rightarrow> \<not> isl (f a)) \<Longrightarrow> \<exists>r. castKey f v = Inr r"
  by (cases v; cases "f (the v)") auto

lemma updateOf_Inr:
  assumes "updateOf P b = Inr u"
  shows "upd_title u = body_title b" and "upd_completed u = body_completed b"
    and "(if truthy (body_date b)
          then \<exists>d. newDate P (body_date b) = Some d \<and> upd_date u = Some d
          else upd_date u = None)"
  using assms by (auto simp: updateOf_def split: if_splits option.splits)

lemma castUpdate_updateOf:
  assumes "updateOf P b = Inr u" and "castUpdate P u = Inr s"
  shows "(case body_title b of None \<Rightarrow> set_title s = None
          | Some v \<Rightarrow> \<exists>x. castTitle P v = Inr x \<and> set_title s = Some x)"
    and "(if truthy (body_date b)
          then \<exists>t. newDate P (body_date b) = Some (Time t) \<and> set_date s = Some t
          else set_date s = None)"
    and "(case body_completed b of None \<Rightarrow> set_completed s = None
          | Some v \<Rightarrow> \<exists>c. castBoolean v = Inr c \<and> set_completed s = Some c)"
  using assms(2) updateOf_Inr[OF assms(1)]
  by (auto simp: castUpdate_Inr_iff castKey_Inr_iff castDate_Inr_iff
      split: option.splits if_splits)

lemma accepted_casts:
  assumes "updateAccepted P now b"
  shows "dateCheck P now (body_date b) = None
         \<and> (\<exists>u s. updateOf P b = Inr u \<and> castUpdate P u = Inr s)"
proof -
  from assms have d: "dateAccepted P now (body_date b)" and f: "fieldsCast P b"
    by (simp_all add: updateAccepted_def)
  from d have chk: "dateCheck P now (body_date b) = None"
    by (auto simp: dateAccepted_def dateCheck_None_iff split: option.splits jsdate.splits)
  from d have "\<exists>u. updateOf P b = Inr u"
    by (cases "truthy (body_date b)")
       (auto simp: dateAccepted_def updateOf_def split: option.splits)
  then obtain u where u: "updateOf P b = Inr u" ..
  from f obtain st where st: "castKey (castTitle P) (body_title b) = Inr st"
    using castKey_ok[where v = "body_title b" and f = "castTitle P"] by (auto simp: fieldsCast_def)
  from f obtain sc where sc: "castKey castBoolean (body_completed b) = Inr sc"
    using castKey_ok[where v = "body_completed b" and f = castBoolean] by (auto simp: fieldsCast_def)
  from d u obtain sd where sd: "castKey castDate (upd_date u) = Inr sd"
    by (auto simp: dateAccepted_def updateOf_def split: option.splits jsdate.splits if_splits)
  have "castUpdate P u = Inr \<lparr>set_title = st, set_date = sd, set_completed = sc\<rparr>"
    using st sc sd updateOf_Inr(1,2)[OF u] by (simp add: castUpdate_Inr_iff)
  with chk u show ?thesis by blast
qed

lemma not_accepted_rejects:
  assumes "\<not> updateAccepted P now b" and "dateCheck P now (body_date b) = None"
    and "updateOf P b = Inr u"
  shows "\<exists>e. castUpdate P u = Inl e"
proof -
  have "\<not> (\<exists>s. castUpdate P u = Inr s)"
  proof
    assume "\<exists>s. castUpdate P u = Inr s"
    then obtain s where s: "castUpdate P u = Inr s" ..
    from castUpdate_updateOf(1,3)[OF assms(3) s] have "fieldsCast P b"
      by (auto simp: fieldsCast_def split: option.splits)
    moreover from castUpdate_updateOf(2)[OF assms(3) s] assms(2)
    have "dateAccepted P now (body_date b)"
      by (auto simp: dateAccepted_def dateCheck_None_iff split: if_splits)
    ultimately show False
      using assms(1) by (simp add: updateAccepted_def)
  qed
  then show ?thesis by (cases "castUpdate P u") auto
qed

lemma put_task_rejected:
  assumes "\<not> updateAccepted P now b"
  shows "snd (put_task P now rid b db) = db
         \<and> (status (fst (put_task P now rid b db)) = 400
            \<or> status (fst (put_task P now rid b db)) = 500)"
proof (cases "dateCheck P now (body_date b)")
  case (Some r)
  with dateCheck_Some_status[OF Some] show ?thesis by (simp add: put_task_def)
next
  case None
  show ?thesis
  proof (cases "updateOf P b")
    case (Inl e)
    with None show ?thesis by (simp add: put_task_def fail_def)
  next
    case (Inr u)
    from not_accepted_rejects[OF assms None Inr] obtain e where "castUpdate P u = Inl e" ..
    with None Inr show ?thesis
      by (simp add: put_task_def findByIdAndUpdate_def fail_def split: option.splits)
  qed
qed

lemma put_task_accepted_existing:
  assumes "castObjectId P rid = Some oid" and "find (\<lambda>t. task_id t = oid) db = Some t"
    and "updateAccepted P now b"
  shows "\<exists>u s db'. updateOf P b = Inr u \<and> castUpdate P u = Inr s
           \<and> put_task P now rid b db =
               (\<lparr>status = 200, payload = TaskSaved TareaActualizada (applySet s t)\<rparr>, db')
           \<and> find (\<lambda>t. task_id t = oid) db' = Some (applySet s t)"
proof -
  from accepted_casts[OF assms(3)] obtain u s
    where chk: "dateCheck P now (body_date b) = None" and u: "updateOf P b = Inr u"
      and s: "castUpdate P u = Inr s"
    by blast
  from findOneAndUpdate_present[OF assms(2), of "applySet s"] obtain db'
    where "findOneAndUpdate oid (applySet s) db = (Some (applySet s t), db')"
      and "find (\<lambda>t. task_id t = oid) db' = Some (applySet s t)"
    by auto
  with chk u s assms(1) show ?thesis
    by (simp add: put_task_def findByIdAndUpdate_def)
qed

lemma put_task_accepted_absent:
  assumes "castObjectId P rid = Some oid" and "find (\<lambda>t. task_id t = oid) db = None"
    and "updateAccepted P now b"
  shows "put_task P now rid b db = (fail 404 TareaNoEncontrada (NoSeEncontro rid), db)"
proof -
  from accepted_casts[OF assms(3)] obtain u s
    where "dateCheck P now (body_date b) = None" and "updateOf P b = Inr u"
      and "castUpdate P u = Inr s"
    by blast
  with assms(1) findOneAndUpdate_absent[OF assms(2)] show ?thesis
    by (simp add: put_task_def findByIdAndUpdate_def)
qed

lemma put_task_task_id: "map task_id (snd (put_task P now rid b db)) = map task_id db"
proof -
  have "\<And>s. map task_id (snd (findOneAndUpdate oid (applySet s) db)) = map task_id db" for oid
    by (rule findOneAndUpdate_task_id) simp
  then show ?thesis
    by (auto simp: put_task_def findByIdAndUpdate_def split: option.splits sum.splits prod.splits)
       (metis snd_conv)+
qed

lemma put_task_createdAt: "map createdAt (snd (put_task P now rid b db)) = map createdAt db"
proof -
  have "\<And>s. map createdAt (snd (findOneAndUpdate oid (applySet s) db)) = map createdAt db" for oid
    by (rule findOneAndUpdate_createdAt) simp
  then show ?thesis
    by (auto simp: put_task_def findByIdAndUpdate_def split: option.splits sum.splits prod.splits)
       (metis snd_conv)+
qed

lemma put_task_cast_failure:
  assumes "dateCheck P now (body_date b) = None" and "\<not> updateAccepted P now b"
  shows "\<exists>e. put_task P now rid b db = (fail 500 ErrorActualizarTarea (ErrorMessage e), db)"
proof (cases "updateOf P b")
  case (Inl e)
  with assms(1) show ?thesis by (auto simp: put_task_def)
next
  case (Inr u)
  from not_accepted_rejects[OF assms(2,1) Inr] obtain e where "castUpdate P u = Inl e" ..
  with assms(1) Inr show ?thesis
    by (auto simp: put_task_def findByIdAndUpdate_def split: option.splits)
qed

lemma applySet_fields:
  assumes "updateOf P b = Inr u" and "castUpdate P u = Inr s"
  shows "(case body_title b of None \<Rightarrow> title (applySet s t) = title t
          | Some v \<Rightarrow> castTitle P v = Inr (title (applySet s t)))"
    and "(if truthy (body_date b)
          then newDate P (body_date b) = Some (Time (date (applySet s t)))
          else date (applySet s t) = date t)"
    and "(case body_completed b of None \<Rightarrow> completed (applySet s t) = completed t
          | Some v \<Rightarrow> castBoolean v = Inr (completed (applySet s t)))"
  using castUpdate_updateOf[OF assms]
  by (auto simp: applySet_def split: option.splits if_splits)

lemma stored_same_ids:
  assumes "map task_id db' = map task_id db" and "map createdAt db' = map createdAt db"
    and "stored oid db = Some t"
  shows "\<exists>t'. stored oid db' = Some t' \<and> task_id t' = task_id t \<and> createdAt t' = createdAt t"
  using assms
proof (induction db arbitrary: db')
  case Nil
  then show ?case by simp
next
  case (Cons a db)
  from Cons.prems(1) obtain a' ds where db': "db' = a' # ds" and a': "task_id a' = task_id a"
    and ds: "map task_id ds = map task_id db"
    by (auto simp: map_eq_Cons_conv)
  from Cons.prems(2) db' have c: "createdAt a' = createdAt a"
    and cs: "map createdAt ds = map createdAt db"
    by simp_all
  show ?case
  proof (cases "task_id a = oid")
    case True
    with Cons.prems(3) db' a' c show ?thesis by simp
  next
    case False
    with Cons.prems(3) have "stored oid db = Some t" by simp
    from Cons.IH[OF ds cs this] False db' a' show ?thesis by simp
  qed
qed

lemma distinct_ids_remove1:
  "distinct (map task_id db) \<Longrightarrow> distinct (map task_id (remove1 t db))"
proof (induction db)
  case Nil
  then show ?case by simp
next
  case (Cons a db)
  have "set (remove1 t db) \<subseteq> set db"
    by (rule set_remove1_subset)
  with Cons show ?case by auto
qed

lemma findOneAndDelete_distinct:
  "distinct (map task_id db) \<Longrightarrow> distinct (map task_id (snd (findOneAndDelete oid db)))"
proof (cases "stored oid db")
  case None
  assume "distinct (map task_id db)"
  with findOneAndDelete_absent[OF None] show ?thesis by simp
next
  case (Some t)
  assume "distinct (map task_id db)"
  with findOneAndDelete_present[OF Some] show ?thesis by (simp add: distinct_ids_remove1)
qed

lemma handlers_keep_ids_distinct:
  assumes "distinct (map task_id db)"
  shows "distinct (map task_id (snd (get_tasks db)))"
    and "distinct (map task_id (snd (get_task P rid db)))"
    and "distinct (map task_id (snd (post_task P now created oid b db)))"
    and "distinct (map task_id (snd (put_task P now rid b db)))"
    and "distinct (map task_id (snd (delete_task P rid db)))"
proof -
  show "distinct (map task_id (snd (get_tasks db)))"
    using assms by (simp add: get_tasks_def Let_def)
  show "distinct (map task_id (snd (get_task P rid db)))"
    using assms by (simp add: get_task_def split: sum.splits option.splits)
  show "distinct (map task_id (snd (post_task P now created oid b db)))"
    using assms
    by (auto simp: post_task_def save_def Let_def split: sum.splits option.splits if_splits)
  show "distinct (map task_id (snd (put_task P now rid b db)))"
    using assms by (simp add: put_task_task_id)
  show "distinct (map task_id (snd (delete_task P rid db)))"
  proof (cases "castObjectId P rid")
    case None
    with assms show ?thesis by (simp add: delete_task_def findByIdAndDelete_def)
  next
    case (Some x)
    obtain r db' where fd: "findOneAndDelete x db = (r, db')"
      by (cases "findOneAndDelete x db")
    with findOneAndDelete_distinct[OF assms, of x] have "distinct (map task_id db')"
      by simp
    with Some fd show ?thesis
      by (cases r) (simp_all add: delete_task_def findByIdAndDelete_def)
  qed
qed

subsection \<open>The examples\<close>

lemma example_ids:
  "castObjectId examplePlatform exampleId = Some 1"
  "castObjectId examplePlatform otherId = Some 2"
  by code_simp+

lemma example_stored:
  "stored 1 [exampleTask] = Some exampleTask"
  "stored 2 [exampleTask] = None"
  by (simp_all add: exampleTask_def)

lemma example_dates:
  "newDate examplePlatform (Some (JStr ''2000-01-01'')) = Some (Time 946684800000)"
  "newDate examplePlatform (Some (JStr ''2030-01-01T00:00:00.000Z'')) = Some (Time 1893456000000)"
  "newDate examplePlatform (Some (JStr ''2040-01-01'')) = Some (Time 2208988800000)"
  "newDate examplePlatform (Some (JNum 0)) = Some (Time 0)"
  by code_simp+

lemma example_accepted:
  "updateAccepted examplePlatform exampleNow exampleBody"
  "updateAccepted examplePlatform exampleNow
     (JObj [(''completed'', JBool True)])"
  by code_simp+

text \<open>
  The no-break space is trimmed like any other white space, so a title made of it alone
  fails the \<^verbatim>\<open>required\<close> validator: \<^verbatim>\<open>PUT\<close> answers 500 for it, on a stored task and
  on an unknown id alike, and \<^verbatim>\<open>POST\<close> does too. A value that does not cast is reported
  before a title that does not validate.
\<close>

lemma example_trim:
  "trim (CHR 0xA0 # ''Leche'' @ [CHR 0xA0]) = ''Leche''"
  "castTitle examplePlatform (JStr [CHR 0xA0]) = Inl ValidationError"
  by code_simp+

lemma example_blank_title:
  "put_task examplePlatform exampleNow exampleId
     (JObj [(''title'', JStr [CHR 0xA0]), (''completed'', JBool False)]) [exampleTask] =
     (\<lparr>status = 500, payload = Failure ErrorActualizarTarea (ErrorMessage ValidationError)\<rparr>,
      [exampleTask])"
  "put_task examplePlatform exampleNow otherId
     (JObj [(''title'', JStr [CHR 0xA0])]) [exampleTask] =
     (\<lparr>status = 500, payload = Failure ErrorActualizarTarea (ErrorMessage ValidationError)\<rparr>,
      [exampleTask])"
  "put_task examplePlatform exampleNow exampleId
     (JObj [(''title'', JStr [CHR 0xA0]), (''completed'', JStr ''maybe'')]) [exampleTask] =
     (\<lparr>status = 500, payload = Failure ErrorActualizarTarea (ErrorMessage CastError)\<rparr>,
      [exampleTask])"
  "post_task examplePlatform exampleNow (exampleNow + 1) 2
     (JObj [(''title'', JStr [CHR 0xA0]), (''date'', JStr ''2040-01-01'')]) [exampleTask] =
     (\<lparr>status = 500, payload = Failure ErrorCrearTarea (ErrorMessage ValidationError)\<rparr>,
      [exampleTask])"
  "\<not> updateAccepted examplePlatform exampleNow (JObj [(''title'', JStr [CHR 0xA0])])"
  by code_simp+

section \<open>Creating a task\<close>

text \<open>
  C1. The date check of \<^verbatim>\<open>POST /tasks\<close> is \<^verbatim>\<open>taskDate < new Date()\<close>: it refuses a date
  before the clock reading only. A request whose date parses to exactly the clock reading
  (here \<^verbatim>\<open>2030-01-01T00:00:00.000Z\<close>, with a title) passes it: the task is stored and the
  answer is 201, not the 400 \<^verbatim>\<open>'La fecha debe ser futura'\<close>.
\<close>

theorem post_task_date_equal_now:
  "newDate examplePlatform (Some (JStr ''2030-01-01T00:00:00.000Z'')) = Some (Time exampleNow)
   \<and> post_task examplePlatform exampleNow (exampleNow + 1) 1
       (JObj [(''title'', JStr ''Comprar pan''), (''date'', JStr ''2030-01-01T00:00:00.000Z'')]) []
     = (\<lparr>status = 201,
         payload = TaskSaved TareaCreada
           \<lparr>task_id = 1, title = ''Comprar pan'', date = exampleNow,
            createdAt = exampleNow + 1, completed = Some False\<rparr>\<rparr>,
        [\<lparr>task_id = 1, title = ''Comprar pan'', date = exampleNow,
          createdAt = exampleNow + 1, completed = Some False\<rparr>])"
  by code_simp

theorem post_task_date_equal_now_witness:
  "status (fst (post_task examplePlatform exampleNow (exampleNow + 1) 1
       (JObj [(''title'', JStr ''Comprar pan''), (''date'', JStr ''2030-01-01T00:00:00.000Z'')]) [])) = 201
   \<and> length (snd (post_task examplePlatform exampleNow (exampleNow + 1) 1
       (JObj [(''title'', JStr ''Comprar pan''), (''date'', JStr ''2030-01-01T00:00:00.000Z'')]) [])) = 1"
  using post_task_date_equal_now by simp



section \<open>Listing\<close>

text \<open>
  C3. For every collection, \<^verbatim>\<open>GET /tasks\<close> answers 200 with \<^verbatim>\<open>success: true\<close>, a
  \<^verbatim>\<open>count\<close> that is the number of stored tasks, and a \<^verbatim>\<open>data\<close> list that holds exactly the
  stored tasks (as a multiset), in ascending order of date and, among tasks of the same
  date, in descending order of \<open>createdAt\<close>. The collection is not changed.
\<close>

theorem get_tasks_sorted:
  "\<exists>xs. get_tasks db = (\<lparr>status = 200, payload = TaskList (length db) xs\<rparr>, db)
        \<and> success (TaskList (length db) xs)
        \<and> mset xs = mset db
        \<and> sorted_wrt listOrder xs"
  by (simp add: get_tasks_def Let_def findSorted_ordered) (simp add: findSorted_def)

text \<open>
  Three tasks, stored in the order 1, 2, 3: task 3 has the earliest date, tasks 1 and 2
  share a date and task 2 was created later.
\<close>

theorem get_tasks_sorted_witness:
  "fst (get_tasks
     [exampleTask,
      exampleTask\<lparr>task_id := 2, createdAt := 1893456000500\<rparr>,
      exampleTask\<lparr>task_id := 3, date := 2000000000000\<rparr>])
   = \<lparr>status = 200,
      payload = TaskList 3
        [exampleTask\<lparr>task_id := 3, date := 2000000000000\<rparr>,
         exampleTask\<lparr>task_id := 2, createdAt := 1893456000500\<rparr>,
         exampleTask]\<rparr>"
proof -
  let ?db = "[exampleTask,
      exampleTask\<lparr>task_id := 2, createdAt := 1893456000500\<rparr>,
      exampleTask\<lparr>task_id := 3, date := 2000000000000\<rparr>]"
  have run: "findSorted ?db =
        [exampleTask\<lparr>task_id := 3, date := 2000000000000\<rparr>,
         exampleTask\<lparr>task_id := 2, createdAt := 1893456000500\<rparr>,
         exampleTask]"
    by code_simp
  from get_tasks_sorted[of ?db] obtain xs
    where g: "get_tasks ?db = (\<lparr>status = 200, payload = TaskList (length ?db) xs\<rparr>, ?db)"
    by blast
  then have "xs = findSorted ?db"
    by (simp add: get_tasks_def Let_def)
  with g have "fst (get_tasks ?db) = \<lparr>status = 200, payload = TaskList 3 (findSorted ?db)\<rparr>"
    by simp
  with run show ?thesis by simp
qed

section \<open>Updating a task\<close>

text \<open>
  C2, as amended. For an update request on an existing task that passes the date check
  and the schema casts (\<open>updateAccepted\<close>), the answer is 200 with the updated task, and in
  the stored task
  \<^item> the title is the cast of the supplied title (the string, trimmed), or the previous
    title when the body has none;
  \<^item> the date is the supplied date when that is truthy, and the previous date when the
    body has no date or a falsy one;
  \<^item> the completed flag is the cast of the supplied value, or the previous flag when the
    body has none.
  In particular an update whose body is only \<^verbatim>\<open>completed: true\<close> is always accepted; it
  changes nothing but the flag, which becomes true.
\<close>

theorem put_task_applies_fields:
  assumes "castObjectId P rid = Some oid" and "stored oid db = Some t"
  shows "(updateAccepted P now b \<longrightarrow>
            (\<exists>t' db'. put_task P now rid b db =
                 (\<lparr>status = 200, payload = TaskSaved TareaActualizada t'\<rparr>, db')
               \<and> stored oid db' = Some t'
               \<and> (case body_title b of None \<Rightarrow> title t' = title t
                   | Some v \<Rightarrow> castTitle P v = Inr (title t'))
               \<and> (if truthy (body_date b)
                   then newDate P (body_date b) = Some (Time (date t'))
                   else date t' = date t)
               \<and> (case body_completed b of None \<Rightarrow> completed t' = completed t
                   | Some v \<Rightarrow> castBoolean v = Inr (completed t'))))
         \<and> (\<exists>db'. put_task P now rid
                 (JObj [(''completed'', JBool True)]) db =
                 (\<lparr>status = 200,
                   payload = TaskSaved TareaActualizada (t\<lparr>completed := Some True\<rparr>)\<rparr>, db')
               \<and> stored oid db' = Some (t\<lparr>completed := Some True\<rparr>))"
proof (intro conjI impI)
  assume acc: "updateAccepted P now b"
  from put_task_accepted_existing[OF assms acc] obtain u s db'
    where u: "updateOf P b = Inr u" and s: "castUpdate P u = Inr s"
      and put: "put_task P now rid b db =
                 (\<lparr>status = 200, payload = TaskSaved TareaActualizada (applySet s t)\<rparr>, db')"
      and st: "stored oid db' = Some (applySet s t)"
    by blast
  from put st applySet_fields[OF u s, of t]
  have "put_task P now rid b db =
                 (\<lparr>status = 200, payload = TaskSaved TareaActualizada (applySet s t)\<rparr>, db')
               \<and> stored oid db' = Some (applySet s t)
               \<and> (case body_title b of None \<Rightarrow> title (applySet s t) = title t
                   | Some v \<Rightarrow> castTitle P v = Inr (title (applySet s t)))
               \<and> (if truthy (body_date b)
                   then newDate P (body_date b) = Some (Time (date (applySet s t)))
                   else date (applySet s t) = date t)
               \<and> (case body_completed b of None \<Rightarrow> completed (applySet s t) = completed t
                   | Some v \<Rightarrow> castBoolean v = Inr (completed (applySet s t)))"
    by simp
  then show "\<exists>t' db'. put_task P now rid b db =
                 (\<lparr>status = 200, payload = TaskSaved TareaActualizada t'\<rparr>, db')
               \<and> stored oid db' = Some t'
               \<and> (case body_title b of None \<Rightarrow> title t' = title t
                   | Some v \<Rightarrow> castTitle P v = Inr (title t'))
               \<and> (if truthy (body_date b)
                   then newDate P (body_date b) = Some (Time (date t'))
                   else date t' = date t)
               \<and> (case body_completed b of None \<Rightarrow> completed t' = completed t
                   | Some v \<Rightarrow> castBoolean v = Inr (completed t'))"
    by blast
next
  let ?b = "(JObj [(''completed'', JBool True)])"
  have fields: "body_title ?b = None" "body_date ?b = None"
    "body_completed ?b = Some (JBool True)"
    by (simp_all add: body_title_def body_date_def body_completed_def)
  have acc: "updateAccepted P now ?b"
    by (simp add: updateAccepted_def dateAccepted_def fieldsCast_def fields)
  from put_task_accepted_existing[OF assms acc] obtain u s db'
    where u: "updateOf P ?b = Inr u" and s: "castUpdate P u = Inr s"
      and put: "put_task P now rid ?b db =
                 (\<lparr>status = 200, payload = TaskSaved TareaActualizada (applySet s t)\<rparr>, db')"
      and st: "stored oid db' = Some (applySet s t)"
    by blast
  from applySet_fields[OF u s, of t]
  have "title (applySet s t) = title t" "date (applySet s t) = date t"
    "completed (applySet s t) = Some True"
    by (simp_all add: fields)
  then have "applySet s t = t\<lparr>completed := Some True\<rparr>"
    by (simp add: applySet_def)
  with put st
  show "\<exists>db'. put_task P now rid ?b db =
                 (\<lparr>status = 200,
                   payload = TaskSaved TareaActualizada (t\<lparr>completed := Some True\<rparr>)\<rparr>, db')
               \<and> stored oid db' = Some (t\<lparr>completed := Some True\<rparr>)"
    by auto
qed

text \<open>
  An update of the example task with a title (to be trimmed), a date in 2040 and
  \<^verbatim>\<open>completed: false\<close>; and the update with \<^verbatim>\<open>completed: true\<close> only.
\<close>

theorem put_task_applies_fields_witness:
  "castObjectId examplePlatform exampleId = Some 1
   \<and> stored 1 [exampleTask] = Some exampleTask
   \<and> updateAccepted examplePlatform exampleNow exampleBody
   \<and> put_task examplePlatform exampleNow exampleId exampleBody [exampleTask] =
       (\<lparr>status = 200,
         payload = TaskSaved TareaActualizada
           \<lparr>task_id = 1, title = ''Comprar leche'', date = 2223331200000,
            createdAt = 1893456000000, completed = Some False\<rparr>\<rparr>,
        [\<lparr>task_id = 1, title = ''Comprar leche'', date = 2223331200000,
          createdAt = 1893456000000, completed = Some False\<rparr>])
   \<and> (\<exists>db'. put_task examplePlatform exampleNow exampleId
          (JObj [(''completed'', JBool True)])
          [exampleTask] =
          (\<lparr>status = 200,
            payload = TaskSaved TareaActualizada (exampleTask\<lparr>completed := Some True\<rparr>)\<rparr>, db')
        \<and> stored 1 db' = Some (exampleTask\<lparr>completed := Some True\<rparr>))"
proof -
  have run: "put_task examplePlatform exampleNow exampleId exampleBody [exampleTask] =
       (\<lparr>status = 200,
         payload = TaskSaved TareaActualizada
           \<lparr>task_id = 1, title = ''Comprar leche'', date = 2223331200000,
            createdAt = 1893456000000, completed = Some False\<rparr>\<rparr>,
        [\<lparr>task_id = 1, title = ''Comprar leche'', date = 2223331200000,
          createdAt = 1893456000000, completed = Some False\<rparr>])"
    by code_simp
  from put_task_applies_fields[OF example_ids(1) example_stored(1), of exampleNow exampleBody]
  show ?thesis
    using example_ids(1) example_stored(1) example_accepted(1) run by blast
qed

text \<open>
  C2 as the specification words it (exactly the supplied fields are applied) fails on a
  supplied date that is falsy. The body \<^verbatim>\<open>{ title: 'Comprar leche', date: 0 }\<close> supplies the
  date \<^verbatim>\<open>new Date(0)\<close>; the answer is 200, the title is applied, and the stored date is still
  the one of 2040.
\<close>

theorem put_task_supplied_date_ignored:
  "put_task examplePlatform exampleNow exampleId
     (JObj [(''title'', JStr ''Comprar leche''), (''date'', JNum 0)]) [exampleTask]
   = (\<lparr>status = 200,
       payload = TaskSaved TareaActualizada (exampleTask\<lparr>title := ''Comprar leche''\<rparr>)\<rparr>,
      [exampleTask\<lparr>title := ''Comprar leche''\<rparr>])
   \<and> newDate examplePlatform (Some (JNum 0)) = Some (Time 0)
   \<and> date (exampleTask\<lparr>title := ''Comprar leche''\<rparr>) = 2208988800000"
  by code_simp

text \<open>
  C4, as amended. For every update request whose date is truthy and makes a \<^verbatim>\<open>Date\<close>
  before the clock reading, the answer is 400 with \<^verbatim>\<open>'Fecha invalida'\<close> and
  \<^verbatim>\<open>'La fecha debe ser futura'\<close>, and the collection is unchanged: the handler returns
  before it calls \<^verbatim>\<open>findByIdAndUpdate\<close>. This holds whatever the id and the other fields are.
\<close>

theorem put_task_past_date:
  assumes "truthy (body_date b)" and "newDate P (body_date b) = Some (Time t)" and "t < now"
  shows "put_task P now rid b db =
           (\<lparr>status = 400, payload = Failure FechaInvalida DebeSerFutura\<rparr>, db)"
  using assms by (simp add: put_task_def dateCheck_def fail_def)

text \<open>The date \<^verbatim>\<open>'2000-01-01'\<close>, sent in 2030.\<close>

theorem put_task_past_date_witness:
  "truthy (Some (JStr ''2000-01-01''))
   \<and> newDate examplePlatform (Some (JStr ''2000-01-01'')) = Some (Time 946684800000)
   \<and> 946684800000 < exampleNow
   \<and> put_task examplePlatform exampleNow exampleId
        (JObj [(''date'', JStr ''2000-01-01'')])
        [exampleTask]
      = (\<lparr>status = 400, payload = Failure FechaInvalida DebeSerFutura\<rparr>, [exampleTask])"
proof -
  have t: "truthy (body_date (JObj [(''date'', JStr ''2000-01-01'')]))"
    by (simp add: body_date_def)
  have d: "newDate examplePlatform (body_date (JObj [(''date'', JStr ''2000-01-01'')]))
           = Some (Time 946684800000)"
    using example_dates(1) by (simp add: body_date_def)
  have l: "946684800000 < exampleNow"
    by (simp add: exampleNow_def)
  from put_task_past_date[OF t d l, of exampleId "[exampleTask]"] example_dates(1) l
  show ?thesis by simp
qed

text \<open>
  C4 as the specification words it (every supplied date in the past) fails on the date
  \<^verbatim>\<open>0\<close>: \<^verbatim>\<open>new Date(0)\<close> is 1970-01-01, before the clock reading, but \<^verbatim>\<open>0\<close> is falsy, the
  block \<^verbatim>\<open>if (date)\<close> is skipped, and the answer is 200.
\<close>

theorem put_task_epoch_date_accepted:
  "put_task examplePlatform exampleNow exampleId
     (JObj [(''date'', JNum 0)]) [exampleTask]
   = (\<lparr>status = 200, payload = TaskSaved TareaActualizada exampleTask\<rparr>, [exampleTask])
   \<and> newDate examplePlatform (Some (JNum 0)) = Some (Time 0)
   \<and> dateBefore (Time 0) exampleNow"
  by code_simp

text \<open>
  C8. An update request never changes the \<^verbatim>\<open>_id\<close> or the \<open>createdAt\<close> of a stored task,
  whatever its id and body are (the body is any JSON value, with any keys) and however it
  is answered: the collection afterwards has
  the same ids and the same creation times, position by position, and a task that was
  stored under an id is still stored under it with the creation time it had. So only
  \<open>title\<close>, \<open>date\<close> and \<open>completed\<close> can differ.
\<close>

theorem put_task_keeps_id_createdAt:
  "map task_id (snd (put_task P now rid b db)) = map task_id db
   \<and> map createdAt (snd (put_task P now rid b db)) = map createdAt db
   \<and> (\<forall>oid t. stored oid db = Some t \<longrightarrow>
         (\<exists>t'. stored oid (snd (put_task P now rid b db)) = Some t'
            \<and> task_id t' = task_id t \<and> createdAt t' = createdAt t))"
proof (intro conjI allI impI)
  show ids: "map task_id (snd (put_task P now rid b db)) = map task_id db"
    by (rule put_task_task_id)
  show cr: "map createdAt (snd (put_task P now rid b db)) = map createdAt db"
    by (rule put_task_createdAt)
  fix oid t
  assume "stored oid db = Some t"
  with ids cr show "\<exists>t'. stored oid (snd (put_task P now rid b db)) = Some t'
            \<and> task_id t' = task_id t \<and> createdAt t' = createdAt t"
    by (rule stored_same_ids)
qed

text \<open>
  An update of the example task whose body tries to set \<^verbatim>\<open>_id\<close> and \<^verbatim>\<open>createdAt\<close>
  besides the title and the flag: the two keys are never read.
\<close>

theorem put_task_keeps_id_createdAt_witness:
  "stored 1 [exampleTask] = Some exampleTask
   \<and> snd (put_task examplePlatform exampleNow exampleId meddlingBody [exampleTask]) =
       [\<lparr>task_id = 1, title = ''Comprar leche'', date = 2208988800000,
         createdAt = 1893456000000, completed = Some False\<rparr>]
   \<and> map task_id (snd (put_task examplePlatform exampleNow exampleId meddlingBody [exampleTask]))
       = [1]
   \<and> map createdAt (snd (put_task examplePlatform exampleNow exampleId meddlingBody
         [exampleTask])) = [1893456000000]
   \<and> (\<exists>t'. stored 1 (snd (put_task examplePlatform exampleNow exampleId meddlingBody
                              [exampleTask])) = Some t'
          \<and> task_id t' = 1 \<and> createdAt t' = 1893456000000)"
proof -
  note k = put_task_keeps_id_createdAt[of examplePlatform exampleNow exampleId meddlingBody
      "[exampleTask]"]
  have run: "snd (put_task examplePlatform exampleNow exampleId meddlingBody [exampleTask]) =
       [\<lparr>task_id = 1, title = ''Comprar leche'', date = 2208988800000,
         createdAt = 1893456000000, completed = Some False\<rparr>]"
    by code_simp
  from k have ids: "map task_id (snd (put_task examplePlatform exampleNow exampleId meddlingBody
      [exampleTask])) = map task_id [exampleTask]"
    by (rule conjunct1)
  from k have cr: "map createdAt (snd (put_task examplePlatform exampleNow exampleId meddlingBody
      [exampleTask])) = map createdAt [exampleTask]"
    by (rule conjunct1[OF conjunct2])
  from k example_stored(1)
  have ex: "\<exists>t'. stored 1 (snd (put_task examplePlatform exampleNow exampleId meddlingBody
                              [exampleTask])) = Some t'
          \<and> task_id t' = task_id exampleTask \<and> createdAt t' = createdAt exampleTask"
    by blast
  from ids cr have ids': "map task_id (snd (put_task examplePlatform exampleNow exampleId
      meddlingBody [exampleTask])) = [1]"
    and cr': "map createdAt (snd (put_task examplePlatform exampleNow exampleId meddlingBody
      [exampleTask])) = [1893456000000]"
    by (simp_all add: exampleTask_def)
  from ex have ex': "\<exists>t'. stored 1 (snd (put_task examplePlatform exampleNow exampleId
      meddlingBody [exampleTask])) = Some t' \<and> task_id t' = 1 \<and> createdAt t' = 1893456000000"
    by (simp add: exampleTask_def)
  from example_stored(1) run ids' cr' ex' show ?thesis
    by (intro conjI)
qed

text \<open>
  C9, as amended. For an update request on an existing task that passes the date check
  and the schema casts, the answer is 200 and the stored task has \<open>completed\<close> false when
  the body holds \<^verbatim>\<open>completed: false\<close>, and keeps its flag when the body has no
  \<^verbatim>\<open>completed\<close>: the handler passes the field on as it is, without a truthiness test, so
  an explicit false is not taken for an omission.
\<close>

theorem put_task_completed_false:
  assumes "castObjectId P rid = Some oid" and "stored oid db = Some t"
    and "updateAccepted P now b"
  shows "\<exists>t' db'. put_task P now rid b db =
             (\<lparr>status = 200, payload = TaskSaved TareaActualizada t'\<rparr>, db')
           \<and> stored oid db' = Some t'
           \<and> (body_completed b = Some (JBool False) \<longrightarrow> completed t' = Some False)
           \<and> (body_completed b = None \<longrightarrow> completed t' = completed t)"
proof -
  from put_task_accepted_existing[OF assms] obtain u s db'
    where u: "updateOf P b = Inr u" and s: "castUpdate P u = Inr s"
      and put: "put_task P now rid b db =
                 (\<lparr>status = 200, payload = TaskSaved TareaActualizada (applySet s t)\<rparr>, db')"
      and st: "stored oid db' = Some (applySet s t)"
    by blast
  from applySet_fields(3)[OF u s, of t]
  have "body_completed b = Some (JBool False) \<longrightarrow> completed (applySet s t) = Some False"
    and "body_completed b = None \<longrightarrow> completed (applySet s t) = completed t"
    by auto
  with put st show ?thesis
    by (intro exI[of _ "applySet s t"] exI[of _ db']) simp
qed

text \<open>The example task is completed; the example body holds \<^verbatim>\<open>completed: false\<close>.\<close>

theorem put_task_completed_false_witness:
  "castObjectId examplePlatform exampleId = Some 1
   \<and> stored 1 [exampleTask] = Some exampleTask
   \<and> updateAccepted examplePlatform exampleNow exampleBody
   \<and> body_completed exampleBody = Some (JBool False)
   \<and> (\<exists>t' db'. put_task examplePlatform exampleNow exampleId exampleBody [exampleTask] =
           (\<lparr>status = 200, payload = TaskSaved TareaActualizada t'\<rparr>, db')
         \<and> stored 1 db' = Some t' \<and> completed t' = Some False)"
proof -
  have c: "body_completed exampleBody = Some (JBool False)"
    by (simp add: exampleBody_def body_completed_def)
  from put_task_completed_false[OF example_ids(1) example_stored(1) example_accepted(1)]
  show ?thesis
    using example_ids(1) example_stored(1) example_accepted(1) c by simp
qed

text \<open>
  C9 as the specification words it (every update request with \<^verbatim>\<open>completed: false\<close>) fails
  on a request that the date check refuses: with the date \<^verbatim>\<open>'2000-01-01'\<close> the answer is
  400 and the stored flag stays true.
\<close>

theorem put_task_completed_false_rejected:
  "completed exampleTask = Some True
   \<and> put_task examplePlatform exampleNow exampleId
        (JObj [(''date'', JStr ''2000-01-01''), (''completed'', JBool False)]) [exampleTask]
      = (\<lparr>status = 400, payload = Failure FechaInvalida DebeSerFutura\<rparr>, [exampleTask])"
  by code_simp

text \<open>
  C10, as amended. For an update request on an existing task whose date is falsy
  (\<^verbatim>\<open>''\<close>, \<^verbatim>\<open>0\<close>, \<^verbatim>\<open>null\<close>, \<^verbatim>\<open>false\<close>), the date check is skipped: the answer is never
  400 and the stored date is unchanged. The answer is 200 when the title and the
  completed flag, where supplied, pass the schema casts; otherwise it is 500 and nothing
  is stored.
\<close>

theorem put_task_falsy_date:
  assumes "castObjectId P rid = Some oid" and "stored oid db = Some t"
    and "\<not> truthy (body_date b)"
  shows "\<exists>r db' t'. put_task P now rid b db = (r, db')
           \<and> stored oid db' = Some t' \<and> date t' = date t
           \<and> status r \<noteq> 400
           \<and> (if fieldsCast P b then status r = 200 else status r = 500 \<and> db' = db)"
proof (cases "fieldsCast P b")
  case True
  with assms(3) have acc: "updateAccepted P now b"
    by (simp add: updateAccepted_def dateAccepted_def)
  from put_task_accepted_existing[OF assms(1,2) acc] obtain u s db'
    where u: "updateOf P b = Inr u" and s: "castUpdate P u = Inr s"
      and put: "put_task P now rid b db =
                 (\<lparr>status = 200, payload = TaskSaved TareaActualizada (applySet s t)\<rparr>, db')"
      and st: "stored oid db' = Some (applySet s t)"
    by blast
  from applySet_fields(2)[OF u s, of t] assms(3) have "date (applySet s t) = date t"
    by simp
  with put st True show ?thesis by simp
next
  case False
  then have nacc: "\<not> updateAccepted P now b"
    by (simp add: updateAccepted_def)
  from assms(3) have chk: "dateCheck P now (body_date b) = None"
    by (simp add: dateCheck_def)
  from put_task_cast_failure[OF chk nacc, of rid db] assms(2) False show ?thesis
    by (auto simp: fail_def)
qed

text \<open>The date \<^verbatim>\<open>0\<close> with \<^verbatim>\<open>completed: false\<close>, on the example task.\<close>

theorem put_task_falsy_date_witness:
  "castObjectId examplePlatform exampleId = Some 1
   \<and> stored 1 [exampleTask] = Some exampleTask
   \<and> \<not> truthy (Some (JNum 0))
   \<and> (\<exists>r db' t'. put_task examplePlatform exampleNow exampleId
           (JObj [(''date'', JNum 0), (''completed'', JBool False)])
           [exampleTask] = (r, db')
         \<and> stored 1 db' = Some t' \<and> date t' = date exampleTask \<and> status r = 200)"
proof -
  let ?b = "(JObj [(''date'', JNum 0), (''completed'', JBool False)])"
  have f: "\<not> truthy (body_date ?b)"
    by (simp add: body_date_def)
  have c: "fieldsCast examplePlatform ?b"
    by (simp add: fieldsCast_def body_title_def body_completed_def)
  from put_task_falsy_date[OF example_ids(1) example_stored(1) f, of exampleNow]
  show ?thesis
    using example_ids(1) example_stored(1) c by auto
qed

text \<open>
  C10 as the specification words it (the answer is 200 for every such request) fails when
  another field does not cast: with the empty string as date and \<^verbatim>\<open>completed: 'maybe'\<close>
  the \<^verbatim>\<open>Boolean\<close> cast throws in \<^verbatim>\<open>findByIdAndUpdate\<close> and the answer is 500.
\<close>

theorem put_task_falsy_date_cast_error:
  "\<not> truthy (Some (JStr []))
   \<and> put_task examplePlatform exampleNow exampleId
        (JObj [(''date'', JStr []), (''completed'', JStr ''maybe'')]) [exampleTask]
      = (\<lparr>status = 500, payload = Failure ErrorActualizarTarea (ErrorMessage CastError)\<rparr>,
         [exampleTask])"
  by code_simp

section \<open>Unknown ids and deletion\<close>

text \<open>
  C6, as amended. For a well-formed id that matches no stored task,
  \<^verbatim>\<open>GET /tasks/:id\<close> and \<^verbatim>\<open>DELETE /tasks/:id\<close> answer 404 with \<^verbatim>\<open>success: false\<close>,
  \<^verbatim>\<open>'Tarea no encontrada'\<close> and the message naming the id, and leave the collection
  unchanged. \<^verbatim>\<open>PUT /tasks/:id\<close> leaves the collection unchanged as well; it answers that
  same 404 when the body passes the date check and the schema casts, and 400 or 500
  otherwise, because the body is checked before the task is looked up.
\<close>

theorem not_found_responses:
  assumes "castObjectId P rid = Some oid" and "stored oid db = None"
  shows "get_task P rid db =
           (\<lparr>status = 404, payload = Failure TareaNoEncontrada (NoSeEncontro rid)\<rparr>, db)
       \<and> delete_task P rid db =
           (\<lparr>status = 404, payload = Failure TareaNoEncontrada (NoSeEncontro rid)\<rparr>, db)
       \<and> snd (put_task P now rid b db) = db
       \<and> (if updateAccepted P now b
          then put_task P now rid b db =
                 (\<lparr>status = 404, payload = Failure TareaNoEncontrada (NoSeEncontro rid)\<rparr>, db)
          else status (fst (put_task P now rid b db)) = 400
               \<or> status (fst (put_task P now rid b db)) = 500)"
proof (intro conjI)
  show "get_task P rid db =
          (\<lparr>status = 404, payload = Failure TareaNoEncontrada (NoSeEncontro rid)\<rparr>, db)"
    using assms by (simp add: get_task_def findById_def fail_def)
  show "delete_task P rid db =
          (\<lparr>status = 404, payload = Failure TareaNoEncontrada (NoSeEncontro rid)\<rparr>, db)"
    using assms findOneAndDelete_absent[OF assms(2)]
    by (simp add: delete_task_def findByIdAndDelete_def fail_def)
  show "snd (put_task P now rid b db) = db"
    using put_task_accepted_absent[OF assms, of now b] put_task_rejected[of P now b rid db]
    by (cases "updateAccepted P now b") simp_all
  show "if updateAccepted P now b
          then put_task P now rid b db =
                 (\<lparr>status = 404, payload = Failure TareaNoEncontrada (NoSeEncontro rid)\<rparr>, db)
          else status (fst (put_task P now rid b db)) = 400
               \<or> status (fst (put_task P now rid b db)) = 500"
    using put_task_accepted_absent[OF assms, of now b] put_task_rejected[of P now b rid db]
    by (simp add: fail_def)
qed

text \<open>The three requests for an id that is not the example task's.\<close>

theorem not_found_responses_witness:
  "castObjectId examplePlatform otherId = Some 2
   \<and> stored 2 [exampleTask] = None
   \<and> updateAccepted examplePlatform exampleNow exampleBody
   \<and> get_task examplePlatform otherId [exampleTask] =
       (\<lparr>status = 404, payload = Failure TareaNoEncontrada (NoSeEncontro otherId)\<rparr>,
        [exampleTask])
   \<and> delete_task examplePlatform otherId [exampleTask] =
       (\<lparr>status = 404, payload = Failure TareaNoEncontrada (NoSeEncontro otherId)\<rparr>,
        [exampleTask])
   \<and> put_task examplePlatform exampleNow otherId exampleBody [exampleTask] =
       (\<lparr>status = 404, payload = Failure TareaNoEncontrada (NoSeEncontro otherId)\<rparr>,
        [exampleTask])"
  using not_found_responses[OF example_ids(2) example_stored(2), of exampleNow exampleBody]
    example_ids(2) example_stored(2) example_accepted(1)
  by simp

text \<open>
  C6 as the specification words it (404 for every update request on an unknown id) fails
  when the body carries a past date: the answer is the 400 of the date check.
\<close>

theorem put_task_unknown_id_past_date:
  "findById examplePlatform otherId [exampleTask] = Inr None
   \<and> put_task examplePlatform exampleNow otherId
        (JObj [(''date'', JStr ''2000-01-01'')])
        [exampleTask]
      = (\<lparr>status = 400, payload = Failure FechaInvalida DebeSerFutura\<rparr>, [exampleTask])"
  by code_simp

text \<open>
  C7. For a delete request on an existing task (in a collection whose \<^verbatim>\<open>_id\<close>s are
  unique, as the storage layer keeps them), the task is removed and nothing else, the
  answer is 200 with \<^verbatim>\<open>'Tarea eliminada correctamente'\<close> and a \<^verbatim>\<open>data\<close> field that holds the
  id and the title of the removed task only, and a get-by-id on that id afterwards is
  answered 404.
\<close>

theorem delete_task_existing:
  assumes "distinct (map task_id db)" and "castObjectId P rid = Some oid"
    and "stored oid db = Some t"
  shows "delete_task P rid db =
           (\<lparr>status = 200, payload = TaskDeleted TareaEliminada oid (title t)\<rparr>, remove1 t db)
         \<and> mset db = add_mset t (mset (remove1 t db))
         \<and> stored oid (remove1 t db) = None
         \<and> get_task P rid (remove1 t db) =
             (\<lparr>status = 404, payload = Failure TareaNoEncontrada (NoSeEncontro rid)\<rparr>,
              remove1 t db)"
proof -
  have id: "task_id t = oid"
    using assms(3) by (rule find_id_SomeD)
  have mem: "t \<in> set db"
    using assms(3) by (auto simp: find_Some_iff)
  have gone: "stored oid (remove1 t db) = None"
    using assms(1,3) by (rule find_remove1_distinct)
  show ?thesis
    using assms(2) findOneAndDelete_present[OF assms(3)] id mem gone
    by (simp add: delete_task_def findByIdAndDelete_def get_task_def findById_def fail_def)
qed

text \<open>Deleting the example task from the collection that holds it alone.\<close>

theorem delete_task_existing_witness:
  "distinct (map task_id [exampleTask])
   \<and> castObjectId examplePlatform exampleId = Some 1
   \<and> stored 1 [exampleTask] = Some exampleTask
   \<and> delete_task examplePlatform exampleId [exampleTask] =
       (\<lparr>status = 200, payload = TaskDeleted TareaEliminada 1 ''Comprar pan''\<rparr>, [])
   \<and> get_task examplePlatform exampleId [] =
       (\<lparr>status = 404, payload = Failure TareaNoEncontrada (NoSeEncontro exampleId)\<rparr>, [])"
proof -
  have d: "distinct (map task_id [exampleTask])"
    by simp
  from delete_task_existing[OF d example_ids(1) example_stored(1)]
  show ?thesis
    using example_ids(1) example_stored(1) by (simp add: exampleTask_def)
qed

end
